theory Spec2Isabelle
  imports Main "HOL-Library.Sublist" "HOL-Library.Word"
begin

section \<open>Python values\<close>

text \<open>
  The script \<^verbatim>\<open>examples/fast-bot-metrics/classic-pipeline.py\<close> handles two kinds of
  dynamically typed data: the application messages that the transport delivers (whatever
  JSON value the client sent, already decoded into Python objects) and the settings blob
  given on the command line. Both are modelled by one datatype of JSON-shaped Python
  values. A dict with string keys is a map; a float is carried as its 64 bits, since the
  script never computes with one.
\<close>

datatype pyval =
    PNone
  | PBool bool
  | PInt int
  | PFloat "64 word"
  | PStr string
  | PList "pyval list"
  | PDict "string \<Rightarrow> pyval option"

text \<open>
  Exceptions. The guard of \<^verbatim>\<open>on_app_message\<close> is \<^verbatim>\<open>except Exception\<close>, so the model
  keeps, for an exception raised by a collaborator, whether its class derives from
  \<^verbatim>\<open>Exception\<close> or only from \<^verbatim>\<open>BaseException\<close> (as \<^verbatim>\<open>asyncio.CancelledError\<close>,
  \<^verbatim>\<open>KeyboardInterrupt\<close> and \<^verbatim>\<open>SystemExit\<close> do).
\<close>

datatype exc_base = Derives_Exception | BaseException_only

datatype line_error =
    Json_invalid
  | Model_type
  | Missing string
  | String_type string

datatype py_exception =
    TypeError
  | KeyError string
  | ValidationError "line_error list"
  | Raised exc_base string

fun is_Exception :: "py_exception \<Rightarrow> bool" where
  "is_Exception (Raised BaseException_only _) = False"
| "is_Exception _ = True"

fun is_ValidationError :: "py_exception \<Rightarrow> bool" where
  "is_ValidationError (ValidationError _) = True"
| "is_ValidationError _ = False"

text \<open>\<^verbatim>\<open>key in v\<close> for a string \<^verbatim>\<open>key\<close>: key membership in a dict, substring test on a
  string, element test on a list (a string equals only a string), \<^verbatim>\<open>TypeError\<close> on
  anything that is not a container.\<close>

fun is_str :: "string \<Rightarrow> pyval \<Rightarrow> bool" where
  "is_str s (PStr t) = (s = t)"
| "is_str s _ = False"

fun py_contains :: "string \<Rightarrow> pyval \<Rightarrow> py_exception + bool" where
  "py_contains k (PDict m) = Inr (m k \<noteq> None)"
| "py_contains k (PStr t) = Inr (sublist k t)"
| "py_contains k (PList xs) = Inr (list_ex (is_str k) xs)"
| "py_contains k _ = Inl TypeError"

text \<open>\<^verbatim>\<open>v[key]\<close> for a string \<^verbatim>\<open>key\<close>: lookup in a dict (\<^verbatim>\<open>KeyError\<close> when absent),
  \<^verbatim>\<open>TypeError\<close> on a string or a list (their indices are integers) and on every value
  that is not subscriptable.\<close>

fun py_getitem :: "pyval \<Rightarrow> string \<Rightarrow> py_exception + pyval" where
  "py_getitem (PDict m) k = (case m k of None \<Rightarrow> Inl (KeyError k) | Some v \<Rightarrow> Inr v)"
| "py_getitem _ k = Inl TypeError"

section \<open>Frames, effects and the collaborators\<close>

text \<open>
  The conversation transcript is a Python list that several objects hold a reference to,
  so lists live in a store and are named by their address.
\<close>

type_synonym addr = nat
type_synonym store = "addr \<Rightarrow> pyval list"

datatype frame =
    EndFrame
  | LLMMessagesFrame addr
  | DailyTransportMessageFrame pyval string

datatype log_record =
    Received_ping pyval
  | Handling_error py_exception pyval

text \<open>
  Every call that leaves the script is an effect. The framework behind the calls is not
  part of the script; what a call does (return, or raise) is given by the world the
  script runs in.
\<close>

datatype effect =
    Send_message frame
  | Push_frame frame
  | Queue_frame frame
  | Queue_frames "frame list"
  | Log_debug log_record

datatype outcome = Returns | Raises py_exception

type_synonym world = "effect \<Rightarrow> outcome"

record handler_result =
  effects :: "effect list"
  escaped :: "py_exception option"

section \<open>The event handlers\<close>

text \<open>
  The handlers are closures of \<^verbatim>\<open>main\<close>; what they close over (the transcript list, the
  task, the user aggregator, the transport) is fixed at registration. Only the transcript
  is state of the script's own, so a handler takes the address of the list and the
  store.
\<close>

text \<open>\<^verbatim>\<open>on_participant_left\<close>: \<^verbatim>\<open>await task.queue_frame(EndFrame())\<close>, unguarded.\<close>

definition on_participant_left ::
  "world \<Rightarrow> store \<Rightarrow> pyval \<Rightarrow> pyval \<Rightarrow> store \<times> handler_result" where
  "on_participant_left w st participant reason =
     (st, \<lparr>effects = [Queue_frame EndFrame],
           escaped = (case w (Queue_frame EndFrame) of Returns \<Rightarrow> None | Raises e \<Rightarrow> Some e)\<rparr>)"

definition introduction :: pyval where
  "introduction =
     PDict [''role'' \<mapsto> PStr ''system'',
            ''content'' \<mapsto> PStr ''Please introduce yourself to the user.'']"

text \<open>\<^verbatim>\<open>on_first_participant_joined\<close>: \<^verbatim>\<open>messages.append(...)\<close> and then
  \<^verbatim>\<open>await task.queue_frames([LLMMessagesFrame(messages)])\<close>; the frame holds the list
  itself, not a copy.\<close>

definition on_first_participant_joined ::
  "world \<Rightarrow> addr \<Rightarrow> store \<Rightarrow> pyval \<Rightarrow> store \<times> handler_result" where
  "on_first_participant_joined w messages st participant =
     (let st' = st(messages := st messages @ [introduction]);
          call = Queue_frames [LLMMessagesFrame messages]
      in (st', \<lparr>effects = [call],
                escaped = (case w call of Returns \<Rightarrow> None | Raises e \<Rightarrow> Some e)\<rparr>))"

text \<open>The handler fired once for each event of a list, in order; an exception that
  escapes one invocation does not undo what it did.\<close>

fun left_events :: "world \<Rightarrow> store \<Rightarrow> (pyval \<times> pyval) list \<Rightarrow> store \<times> effect list" where
  "left_events w st [] = (st, [])"
| "left_events w st ((p, r) # evs) =
     (let (st1, res) = on_participant_left w st p r;
          (st2, effs) = left_events w st1 evs
      in (st2, effects res @ effs))"

fun joined_events :: "world \<Rightarrow> addr \<Rightarrow> store \<Rightarrow> pyval list \<Rightarrow> store \<times> effect list" where
  "joined_events w messages st [] = (st, [])"
| "joined_events w messages st (p # ps) =
     (let (st1, res) = on_first_participant_joined w messages st p;
          (st2, effs) = joined_events w messages st1 ps
      in (st2, effects res @ effs))"

text \<open>\<^verbatim>\<open>on_app_message\<close>. The body of the \<^verbatim>\<open>try\<close> is a sequence of steps, each of which
  may raise; \<^verbatim>\<open>app_message_body\<close> gives the calls made and the exception that ended the
  body, if one did. The two \<^verbatim>\<open>logger.debug\<close> calls format a JSON-shaped value and hand
  the line to the logger; they are recorded and return.\<close>

definition pong :: "string \<Rightarrow> pyval \<Rightarrow> string \<Rightarrow> frame" where
  "pong reply_key ts sender =
     DailyTransportMessageFrame (PDict [reply_key \<mapsto> PDict [''ts'' \<mapsto> ts]]) sender"

definition app_message_body :: "world \<Rightarrow> pyval \<Rightarrow> string \<Rightarrow> effect list \<times> py_exception option" where
  "app_message_body w message sender =
     (case py_contains ''latency-ping'' message of
        Inl e \<Rightarrow> ([], Some e)
      | Inr False \<Rightarrow> ([], None)
      | Inr True \<Rightarrow>
          (let log = Log_debug (Received_ping message) in
           case py_getitem message ''latency-ping'' of
             Inl e \<Rightarrow> ([log], Some e)
           | Inr ping \<Rightarrow>
               (case py_getitem ping ''ts'' of
                  Inl e \<Rightarrow> ([log], Some e)
                | Inr ts \<Rightarrow>
                    (let send = Send_message (pong ''latency-pong-msg-handler'' ts sender) in
                     case w send of
                       Raises e \<Rightarrow> ([log, send], Some e)
                     | Returns \<Rightarrow>
                         (let push = Push_frame (pong ''latency-pong-pipeline-delivery'' ts sender) in
                          case w push of
                            Raises e \<Rightarrow> ([log, send, push], Some e)
                          | Returns \<Rightarrow> ([log, send, push], None))))))"

text \<open>The guard: \<^verbatim>\<open>except Exception as e\<close> logs and drops an exception whose class
  derives from \<^verbatim>\<open>Exception\<close>; any other propagates to the caller.\<close>

definition on_app_message :: "world \<Rightarrow> pyval \<Rightarrow> string \<Rightarrow> handler_result" where
  "on_app_message w message sender =
     (case app_message_body w message sender of
        (effs, None) \<Rightarrow> \<lparr>effects = effs, escaped = None\<rparr>
      | (effs, Some e) \<Rightarrow>
          (if is_Exception e
           then \<lparr>effects = effs @ [Log_debug (Handling_error e message)], escaped = None\<rparr>
           else \<lparr>effects = effs, escaped = Some e\<rparr>))"

text \<open>The replies among the calls a handler made.\<close>

fun is_reply :: "effect \<Rightarrow> bool" where
  "is_reply (Send_message _) = True"
| "is_reply (Push_frame _) = True"
| "is_reply _ = False"

definition replies :: "handler_result \<Rightarrow> effect list" where
  "replies r = filter is_reply (effects r)"

text \<open>A message that is a dict holding the key, and one that carries a timestamp under
  it: \<^verbatim>\<open>{"latency-ping": {"ts": ts}}\<close>, possibly among other keys.\<close>

fun has_key :: "string \<Rightarrow> pyval \<Rightarrow> bool" where
  "has_key k (PDict m) = (m k \<noteq> None)"
| "has_key k _ = False"

fun carries_ts :: "pyval \<Rightarrow> pyval \<Rightarrow> bool" where
  "carries_ts (PDict m) ts =
     (case m ''latency-ping'' of
        Some (PDict p) \<Rightarrow> p ''ts'' = Some ts
      | _ \<Rightarrow> False)"
| "carries_ts _ ts = False"

text \<open>Three worlds: one where every call returns, one where the immediate send fails,
  one where the task is cancelled while the handler awaits \<^verbatim>\<open>push_frame\<close>.\<close>

definition quiet_world :: world where
  "quiet_world c = Returns"

definition failing_send_world :: world where
  "failing_send_world c =
     (case c of
        Send_message _ \<Rightarrow> Raises (Raised Derives_Exception ''RuntimeError'')
      | _ \<Rightarrow> Returns)"

definition cancelled_push_world :: world where
  "cancelled_push_world c =
     (case c of
        Push_frame _ \<Rightarrow> Raises (Raised BaseException_only ''CancelledError'')
      | _ \<Rightarrow> Returns)"

definition ping_5 :: pyval where
  "ping_5 = PDict [''latency-ping'' \<mapsto> PDict [''ts'' \<mapsto> PInt 5]]"

section \<open>The settings record\<close>

text \<open>\<^verbatim>\<open>class BotSettings(BaseModel)\<close>: two required strings, a string with a default and
  seven \<^verbatim>\<open>Optional[str]\<close> fields with defaults.\<close>

record BotSettings =
  room_url :: string
  room_token :: string
  bot_name :: string
  prompt :: "string option"
  deepgram_api_key :: "string option"
  deepgram_voice :: "string option"
  deepgram_base_url :: "string option"
  openai_api_key :: "string option"
  openai_model :: "string option"
  openai_base_url :: "string option"

definition default_prompt :: string where
  "default_prompt = ''You are a helpful LLM in a WebRTC call. Your goal is to demonstrate your capabilities in a succinct way. Respond to what the user said in a creative and helpful way in a few short sentences.''"

section \<open>The construction in main\<close>

text \<open>Keyword arguments of a constructor call are a map from the keyword to the value
  passed: a keyword that is not passed is not in the map, a keyword passed as \<^verbatim>\<open>None\<close> is
  in the map with \<^verbatim>\<open>KNone\<close>.\<close>

datatype kwarg = KStr string | KNone | KSession

type_synonym kwargs = "string \<Rightarrow> kwarg option"
type_synonym environ = "string \<Rightarrow> string option"

text \<open>\<^verbatim>\<open>os.getenv(name)\<close>: the value, or \<^verbatim>\<open>None\<close>.\<close>

definition os_getenv :: "environ \<Rightarrow> string \<Rightarrow> kwarg" where
  "os_getenv env name = (case env name of None \<Rightarrow> KNone | Some v \<Rightarrow> KStr v)"

text \<open>\<^verbatim>\<open>**({key: url} if (url := os.getenv(name)) else {})\<close>: the keyword is passed when the
  variable is set to a string that is true, that is, not empty.\<close>

definition kwarg_if_set :: "environ \<Rightarrow> string \<Rightarrow> string \<Rightarrow> kwargs" where
  "kwarg_if_set env key name =
     (case env name of
        None \<Rightarrow> Map.empty
      | Some url \<Rightarrow> if url \<noteq> [] then [key \<mapsto> KStr url] else Map.empty)"

text \<open>The parameter objects, with the fields the script sets. \<^verbatim>\<open>stop_secs=0.200\<close> is kept
  as the bits of that double.\<close>

record DailyParams =
  audio_out_enabled :: bool
  transcription_enabled :: bool
  vad_enabled :: bool
  vad_stop_secs :: "64 word"
  vad_audio_passthrough :: bool

record PipelineParams =
  allow_interruptions :: bool
  enable_metrics :: bool
  report_only_initial_ttfb :: bool

text \<open>The processors of the pipeline, by the names \<^verbatim>\<open>main\<close> gives them.\<close>

datatype processor =
    Transport_input | Avt | Stt | Tl | Tma_in | Llm | Tts | Transport_output | Tma_out

definition system_prompt :: string where
  "system_prompt =
     ''You are a helpful assistant in an audio conversation.'' @ [CHR 0x0A, CHR 0x0A] @
     ''Your goal is to demonstrate your capabilities in a succinct way. Your output will be converted to audio so don't include special characters in your answers.'' @ [CHR 0x0A, CHR 0x0A] @
     ''Respond to what the user said in a creative and helpful way. Be concise in your answers to basic questions. If you are asked to elaborate or tell a story, provide a longer response.'' @ [CHR 0x0A]"

text \<open>Creating a list takes the next free address of the heap.\<close>

record heap =
  cells :: store
  next_free :: addr

definition new_list :: "heap \<Rightarrow> pyval list \<Rightarrow> addr \<times> heap" where
  "new_list h xs =
     (next_free h, h\<lparr>cells := (cells h)(next_free h := xs), next_free := Suc (next_free h)\<rparr>)"

text \<open>
  All that \<^verbatim>\<open>main\<close> builds before it hands the task to the runner: the arguments of the
  transport and of the three services, the transcript list and the list each aggregator
  was constructed with, the order of the pipeline, the parameters of the task and the
  names of the events that have a handler.
\<close>

record bot =
  transport_room_url :: string
  transport_token :: string
  transport_bot_name :: string
  transport_params :: DailyParams
  stt_kwargs :: kwargs
  tts_kwargs :: kwargs
  llm_kwargs :: kwargs
  messages :: addr
  tma_in_messages :: addr
  tma_out_messages :: addr
  pipeline :: "processor list"
  task_params :: PipelineParams
  event_handlers :: "string list"

text \<open>
  \<^verbatim>\<open>main(settings)\<close>, up to the call of the runner. The environment is the process
  environment as \<^verbatim>\<open>os.getenv\<close> sees it when \<^verbatim>\<open>main\<close> runs. The literal list
  \<^verbatim>\<open>messages\<close> is created once and the same object is given to both aggregators.
\<close>

definition main :: "environ \<Rightarrow> BotSettings \<Rightarrow> heap \<Rightarrow> bot \<times> heap" where
  "main env settings h =
     (let (msgs, h') = new_list h
            [PDict [''role'' \<mapsto> PStr ''system'', ''content'' \<mapsto> PStr system_prompt]]
      in (\<lparr>transport_room_url = room_url settings,
           transport_token = room_token settings,
           transport_bot_name = bot_name settings,
           transport_params =
             \<lparr>audio_out_enabled = True,
              transcription_enabled = False,
              vad_enabled = True,
              vad_stop_secs = 0x3FC999999999999A,
              vad_audio_passthrough = True\<rparr>,
           stt_kwargs =
             [''api_key'' \<mapsto> os_getenv env ''DEEPGRAM_API_KEY'']
             ++ kwarg_if_set env ''url'' ''DEEPGRAM_STT_URL'',
           tts_kwargs =
             [''name'' \<mapsto> KStr ''Voice'',
              ''aiohttp_session'' \<mapsto> KSession,
              ''api_key'' \<mapsto> os_getenv env ''DEEPGRAM_API_KEY'',
              ''voice'' \<mapsto> KStr ''aura-asteria-en'']
             ++ kwarg_if_set env ''base_url'' ''DEEPGRAM_TTS_BASE_URL'',
           llm_kwargs =
             [''name'' \<mapsto> KStr ''LLM'',
              ''api_key'' \<mapsto> os_getenv env ''OPENAI_API_KEY'',
              ''model'' \<mapsto> os_getenv env ''OPENAI_MODEL'',
              ''base_url'' \<mapsto> os_getenv env ''OPENAI_BASE_URL''],
           messages = msgs,
           tma_in_messages = msgs,
           tma_out_messages = msgs,
           pipeline = [Transport_input, Avt, Stt, Tl, Tma_in, Llm, Tts, Transport_output, Tma_out],
           task_params =
             \<lparr>allow_interruptions = True,
              enable_metrics = True,
              report_only_initial_ttfb = True\<rparr>,
           event_handlers =
             [''on_participant_left'', ''on_first_participant_joined'', ''on_app_message'']\<rparr>,
          h'))"


text \<open>The closures \<^verbatim>\<open>main\<close> registers on the transport: the transcript they see is the
  list \<^verbatim>\<open>main\<close> created.\<close>

definition fire_first_participant_joined ::
  "world \<Rightarrow> bot \<Rightarrow> store \<Rightarrow> pyval \<Rightarrow> store \<times> handler_result" where
  "fire_first_participant_joined w b st participant =
     on_first_participant_joined w (messages b) st participant"

text \<open>Sample environments, heap and settings.\<close>

definition bare_env :: environ where
  "bare_env name = None"

definition empty_base_url_env :: environ where
  "empty_base_url_env name = (if name = ''OPENAI_BASE_URL'' then Some [] else None)"

definition empty_heap :: heap where
  "empty_heap = \<lparr>cells = (\<lambda>a. []), next_free = 0\<rparr>"

definition settings_a :: BotSettings where
  "settings_a =
     \<lparr>room_url = ''https://example.daily.co/room'', room_token = ''token'',
      bot_name = ''Pipecat'', prompt = Some default_prompt, deepgram_api_key = None,
      deepgram_voice = Some ''aura-asteria-en'',
      deepgram_base_url = Some ''https://api.deepgram.com/v1/speak'',
      openai_api_key = None, openai_model = Some ''gpt-4o'', openai_base_url = None\<rparr>"

definition settings_b :: BotSettings where
  "settings_b =
     \<lparr>room_url = ''https://example.daily.co/room'', room_token = ''token'',
      bot_name = ''Pipecat'', prompt = Some ''Speak like a pirate.'',
      deepgram_api_key = Some ''dg-key'', deepgram_voice = Some ''aura-luna-en'',
      deepgram_base_url = None, openai_api_key = Some ''sk-key'',
      openai_model = Some ''gpt-4o-mini'', openai_base_url = Some ''http://localhost:8000/v1''\<rparr>"

section \<open>Validation of the settings\<close>

text \<open>
  \<^verbatim>\<open>BotSettings.model_validate_json(args.settings)\<close>. The class gives the fields, their
  types and their defaults; pydantic (version 2, which has \<^verbatim>\<open>model_validate_json\<close>) reads
  the text as JSON and validates the object field by field: a field that is absent takes
  its default or, having none, is reported missing; a \<^verbatim>\<open>str\<close> field takes a JSON string
  and nothing else; an \<^verbatim>\<open>Optional[str]\<close> field takes a JSON string or \<^verbatim>\<open>null\<close>; a key
  the class does not name is ignored. All fields are validated and the errors of all of
  them are raised together, as one \<^verbatim>\<open>ValidationError\<close>.
\<close>

type_synonym 'a validated = "line_error list + 'a"

fun validate_str :: "string \<Rightarrow> pyval \<Rightarrow> string validated" where
  "validate_str loc (PStr s) = Inr s"
| "validate_str loc _ = Inl [String_type loc]"

fun validate_optional_str :: "string \<Rightarrow> pyval \<Rightarrow> string option validated" where
  "validate_optional_str loc PNone = Inr None"
| "validate_optional_str loc (PStr s) = Inr (Some s)"
| "validate_optional_str loc _ = Inl [String_type loc]"

text \<open>A field without a default, and a field with one.\<close>

definition required_field ::
  "(string \<Rightarrow> pyval option) \<Rightarrow> string \<Rightarrow> (string \<Rightarrow> pyval \<Rightarrow> 'a validated) \<Rightarrow> 'a validated" where
  "required_field m loc validate =
     (case m loc of None \<Rightarrow> Inl [Missing loc] | Some v \<Rightarrow> validate loc v)"

definition field_with_default ::
  "(string \<Rightarrow> pyval option) \<Rightarrow> string \<Rightarrow> (string \<Rightarrow> pyval \<Rightarrow> 'a validated) \<Rightarrow> 'a \<Rightarrow> 'a validated" where
  "field_with_default m loc validate d =
     (case m loc of None \<Rightarrow> Inr d | Some v \<Rightarrow> validate loc v)"

text \<open>One more field validated: its value is passed on when all fields so far were
  good, its errors are added to those found so far.\<close>

fun collect :: "('a \<Rightarrow> 'b) validated \<Rightarrow> 'a validated \<Rightarrow> 'b validated" where
  "collect (Inr f) (Inr x) = Inr (f x)"
| "collect (Inr f) (Inl e) = Inl e"
| "collect (Inl e) (Inr x) = Inl e"
| "collect (Inl e) (Inl e') = Inl (e @ e')"

definition make_settings ::
  "string \<Rightarrow> string \<Rightarrow> string \<Rightarrow> string option \<Rightarrow> string option \<Rightarrow> string option \<Rightarrow>
   string option \<Rightarrow> string option \<Rightarrow> string option \<Rightarrow> string option \<Rightarrow> BotSettings" where
  "make_settings u t n p dk dv db ok om ob =
     \<lparr>room_url = u, room_token = t, bot_name = n, prompt = p, deepgram_api_key = dk,
      deepgram_voice = dv, deepgram_base_url = db, openai_api_key = ok, openai_model = om,
      openai_base_url = ob\<rparr>"

fun model_validate :: "pyval \<Rightarrow> BotSettings validated" where
  "model_validate (PDict m) =
     collect (collect (collect (collect (collect (collect (collect (collect (collect (collect
       (Inr make_settings)
       (required_field m ''room_url'' validate_str))
       (required_field m ''room_token'' validate_str))
       (field_with_default m ''bot_name'' validate_str ''Pipecat''))
       (field_with_default m ''prompt'' validate_optional_str (Some default_prompt)))
       (field_with_default m ''deepgram_api_key'' validate_optional_str None))
       (field_with_default m ''deepgram_voice'' validate_optional_str (Some ''aura-asteria-en'')))
       (field_with_default m ''deepgram_base_url'' validate_optional_str
          (Some ''https://api.deepgram.com/v1/speak'')))
       (field_with_default m ''openai_api_key'' validate_optional_str None))
       (field_with_default m ''openai_model'' validate_optional_str (Some ''gpt-4o'')))
       (field_with_default m ''openai_base_url'' validate_optional_str None)"
| "model_validate _ = Inl [Model_type]"

text \<open>Reading JSON text is the work of the library's parser, which is not modelled: it
  is a parameter, \<^verbatim>\<open>None\<close> where the text is not JSON.\<close>

type_synonym json_parser = "string \<Rightarrow> pyval option"

definition model_validate_json :: "json_parser \<Rightarrow> string \<Rightarrow> py_exception + BotSettings" where
  "model_validate_json json_loads blob =
     (case json_loads blob of
        None \<Rightarrow> Inl (ValidationError [Json_invalid])
      | Some j \<Rightarrow>
          (case model_validate j of
             Inl errs \<Rightarrow> Inl (ValidationError errs)
           | Inr settings \<Rightarrow> Inr settings))"

text \<open>The schema, read off the class declaration: the JSON values that match it are the
  objects with a string under \<^verbatim>\<open>room_url\<close> and under \<^verbatim>\<open>room_token\<close>, nothing or a
  string under \<^verbatim>\<open>bot_name\<close>, and nothing, \<^verbatim>\<open>null\<close> or a string under each of the other
  seven names.\<close>

fun is_string :: "pyval \<Rightarrow> bool" where
  "is_string (PStr s) = True"
| "is_string _ = False"

fun is_string_or_null :: "pyval \<Rightarrow> bool" where
  "is_string_or_null (PStr s) = True"
| "is_string_or_null PNone = True"
| "is_string_or_null _ = False"

definition present_and :: "(string \<Rightarrow> pyval option) \<Rightarrow> string \<Rightarrow> (pyval \<Rightarrow> bool) \<Rightarrow> bool" where
  "present_and m k P = (case m k of None \<Rightarrow> False | Some v \<Rightarrow> P v)"

definition absent_or :: "(string \<Rightarrow> pyval option) \<Rightarrow> string \<Rightarrow> (pyval \<Rightarrow> bool) \<Rightarrow> bool" where
  "absent_or m k P = (case m k of None \<Rightarrow> True | Some v \<Rightarrow> P v)"

fun matches_schema :: "pyval \<Rightarrow> bool" where
  "matches_schema (PDict m) =
     (present_and m ''room_url'' is_string \<and>
      present_and m ''room_token'' is_string \<and>
      absent_or m ''bot_name'' is_string \<and>
      absent_or m ''prompt'' is_string_or_null \<and>
      absent_or m ''deepgram_api_key'' is_string_or_null \<and>
      absent_or m ''deepgram_voice'' is_string_or_null \<and>
      absent_or m ''deepgram_base_url'' is_string_or_null \<and>
      absent_or m ''openai_api_key'' is_string_or_null \<and>
      absent_or m ''openai_model'' is_string_or_null \<and>
      absent_or m ''openai_base_url'' is_string_or_null)"
| "matches_schema _ = False"

text \<open>What a field of the validated record holds, given the JSON object.\<close>

definition str_field :: "(string \<Rightarrow> pyval option) \<Rightarrow> string \<Rightarrow> string \<Rightarrow> string" where
  "str_field m k d = (case m k of Some (PStr s) \<Rightarrow> s | _ \<Rightarrow> d)"

definition opt_field :: "(string \<Rightarrow> pyval option) \<Rightarrow> string \<Rightarrow> string option \<Rightarrow> string option" where
  "opt_field m k d = (case m k of None \<Rightarrow> d | Some (PStr s) \<Rightarrow> Some s | Some _ \<Rightarrow> None)"

section \<open>The command line\<close>

text \<open>
  The script builds \<^verbatim>\<open>argparse.ArgumentParser(description="Pipecat Bot")\<close>, adds the one
  argument \<^verbatim>\<open>"-s", "--settings"\<close> (\<^verbatim>\<open>type=str, required=True\<close>) and calls
  \<^verbatim>\<open>parse_known_args()\<close> on \<^verbatim>\<open>sys.argv[1:]\<close>. The parser so configured has two actions:
  the help action that \<^verbatim>\<open>ArgumentParser\<close> adds by default (\<^verbatim>\<open>-h\<close>, \<^verbatim>\<open>--help\<close>, no
  argument) and the settings action (one argument, stored as given). It has no positional
  argument, no sub-parser and no file prefix; abbreviations are allowed and an error exits.
  The functions below follow \<^verbatim>\<open>argparse.py\<close> of CPython 3.11 for this parser, by name. An
  argument is a string of characters with code points below 256.
\<close>

datatype action = Help_action | Settings_action

definition option_string_actions :: "(string \<times> action) list" where
  "option_string_actions =
     [(''-h'', Help_action), (''--help'', Help_action),
      (''-s'', Settings_action), (''--settings'', Settings_action)]"

text \<open>What \<^verbatim>\<open>parser.error\<close> reports before it exits with status 2.\<close>

datatype usage_error =
    Ambiguous_option string
  | Unexpected_option_string string
  | Expected_one_argument
  | Ignored_explicit_argument string
  | Required_arguments

text \<open>The tuple \<^verbatim>\<open>(action, option_string, sep, explicit_arg)\<close> of \<^verbatim>\<open>_parse_optional\<close>;
  the action is \<^verbatim>\<open>None\<close> for a string that looks like an option of no known name.\<close>

type_synonym option_tuple = "action option \<times> string \<times> string option \<times> string option"

text \<open>\<^verbatim>\<open>s.partition('=')\<close>.\<close>

definition partition_eq :: "string \<Rightarrow> string \<times> string \<times> string" where
  "partition_eq s =
     (if CHR ''='' \<in> set s
      then (takeWhile (\<lambda>c. c \<noteq> CHR ''='') s, ''='', tl (dropWhile (\<lambda>c. c \<noteq> CHR ''='') s))
      else (s, [], []))"

text \<open>\<^verbatim>\<open>_negative_number_matcher.match(s)\<close>, the pattern being
  \<^verbatim>\<open>'^-\d+$|^-\d*\.\d+$'\<close>; \<^verbatim>\<open>$\<close> also matches before a final newline.\<close>

definition is_digit :: "char \<Rightarrow> bool" where
  "is_digit c = (c \<in> set ''0123456789'')"

definition negative_number :: "string \<Rightarrow> bool" where
  "negative_number s =
     (let t = (if s \<noteq> [] \<and> last s = CHR 0x0A then butlast s else s) in
      case t of
        [] \<Rightarrow> False
      | c # body \<Rightarrow>
          c = CHR ''-'' \<and>
          ((body \<noteq> [] \<and> list_all is_digit body) \<or>
           (case dropWhile is_digit body of
              [] \<Rightarrow> False
            | d # frac \<Rightarrow> d = CHR ''.'' \<and> frac \<noteq> [] \<and> list_all is_digit frac)))"

text \<open>\<^verbatim>\<open>_get_option_tuples\<close>: the known options that a string abbreviates. It is called
  on strings of two characters or more that start with \<^verbatim>\<open>-\<close>.\<close>

fun get_option_tuples :: "string \<Rightarrow> usage_error + option_tuple list" where
  "get_option_tuples (c0 # c1 # cs) =
     (let option_string = c0 # c1 # cs in
      if c0 = CHR ''-'' \<and> c1 = CHR ''-'' then
        (let (option_prefix, sep, explicit_arg) = partition_eq option_string;
             sep' = (if sep = [] then None else Some sep);
             explicit_arg' = (if sep = [] then None else Some explicit_arg)
         in Inr (map (\<lambda>(os, a). (Some a, os, sep', explicit_arg'))
                  (filter (\<lambda>(os, a). prefix option_prefix os) option_string_actions)))
      else if c0 = CHR ''-'' \<and> c1 \<noteq> CHR ''-'' then
        (let short_option_prefix = take 2 option_string;
             short_explicit_arg = drop 2 option_string
         in Inr (concat (map (\<lambda>(os, a).
                   if os = short_option_prefix then [(Some a, os, Some [], Some short_explicit_arg)]
                   else if prefix option_string os then [(Some a, os, None, None)]
                   else []) option_string_actions)))
      else Inl (Unexpected_option_string option_string))"
| "get_option_tuples cs = Inl (Unexpected_option_string cs)"

text \<open>\<^verbatim>\<open>_parse_optional\<close>: \<^verbatim>\<open>None\<close> for a positional string, a tuple for an option, an
  error for an abbreviation of more than one option. No option of this parser looks like
  a negative number, so a negative number is positional.\<close>

definition parse_optional :: "string \<Rightarrow> usage_error + option_tuple option" where
  "parse_optional arg_string =
     (if arg_string = [] then Inr None
      else if hd arg_string \<noteq> CHR ''-'' then Inr None
      else case map_of option_string_actions arg_string of
        Some a \<Rightarrow> Inr (Some (Some a, arg_string, None, None))
      | None \<Rightarrow>
          if length arg_string = 1 then Inr None
          else
            (let (option_string, sep, explicit_arg) = partition_eq arg_string in
             case (if sep \<noteq> [] then map_of option_string_actions option_string else None) of
               Some a \<Rightarrow> Inr (Some (Some a, option_string, Some sep, Some explicit_arg))
             | None \<Rightarrow>
                 (case get_option_tuples arg_string of
                    Inl e \<Rightarrow> Inl e
                  | Inr option_tuples \<Rightarrow>
                      if length option_tuples > 1 then Inl (Ambiguous_option arg_string)
                      else if length option_tuples = 1 then Inr (Some (hd option_tuples))
                      else if negative_number arg_string then Inr None
                      else if CHR '' '' \<in> set arg_string then Inr None
                      else Inr (Some (None, arg_string, None, None)))))"

text \<open>The pattern of the argument strings: \<^verbatim>\<open>A\<close> for a positional string, \<^verbatim>\<open>O\<close> for an
  option with its tuple, \<^verbatim>\<open>-\<close> for \<^verbatim>\<open>--\<close>, after which every string is an \<^verbatim>\<open>A\<close>.\<close>

datatype pat = Pat_A | Pat_O option_tuple | Pat_dash

fun arg_patterns :: "string list \<Rightarrow> usage_error + pat list" where
  "arg_patterns [] = Inr []"
| "arg_patterns (arg_string # rest) =
     (if arg_string = ''--'' then Inr (Pat_dash # map (\<lambda>_. Pat_A) rest)
      else case parse_optional arg_string of
        Inl e \<Rightarrow> Inl e
      | Inr t \<Rightarrow>
          (case arg_patterns rest of
             Inl e \<Rightarrow> Inl e
           | Inr ps \<Rightarrow> Inr ((case t of None \<Rightarrow> Pat_A | Some tup \<Rightarrow> Pat_O tup) # ps)))"

text \<open>\<^verbatim>\<open>consume_optional\<close>. Its loop walks through options written in one string
  (\<^verbatim>\<open>-hs\<close>), collects the actions to take and either raises, or stops with the actions, the
  strings it adds to the extras and the number of following strings it used as arguments
  (\<^verbatim>\<open>match_argument\<close>: none for help, exactly one \<^verbatim>\<open>A\<close> for settings).\<close>

datatype taken = Take_help | Take_settings string

datatype chain_result =
    Chain_error usage_error
  | Chain_done "taken list" "string list" nat

fun optional_chain ::
  "action \<Rightarrow> string \<Rightarrow> string option \<Rightarrow> string option \<Rightarrow> (string \<times> pat) list \<Rightarrow> taken list
   \<Rightarrow> chain_result" where
  "optional_chain Settings_action option_string sep (Some explicit_arg) rest action_tuples =
     Chain_done (action_tuples @ [Take_settings explicit_arg]) [] 0"
| "optional_chain Help_action option_string sep (Some []) rest action_tuples =
     Chain_error (Ignored_explicit_argument [])"
| "optional_chain Help_action option_string sep (Some (c # cs)) rest action_tuples =
     (if (case option_string of c0 # c1 # _ \<Rightarrow> c1 \<noteq> CHR ''-'' | _ \<Rightarrow> False) then
        (if sep = Some ''='' \<or> c = CHR ''-'' then Chain_error (Ignored_explicit_argument (c # cs))
         else
           (case map_of option_string_actions [CHR ''-'', c] of
              Some a \<Rightarrow>
                (case cs of
                   [] \<Rightarrow> optional_chain a [CHR ''-'', c] None None rest (action_tuples @ [Take_help])
                 | d # ds \<Rightarrow>
                     if d = CHR ''=''
                     then optional_chain a [CHR ''-'', c] (Some ''='') (Some ds) rest
                            (action_tuples @ [Take_help])
                     else optional_chain a [CHR ''-'', c] (Some []) (Some (d # ds)) rest
                            (action_tuples @ [Take_help]))
            | None \<Rightarrow> Chain_done (action_tuples @ [Take_help]) [CHR ''-'' # c # cs] 0))
      else Chain_error (Ignored_explicit_argument (c # cs)))"
| "optional_chain Help_action option_string sep None rest action_tuples =
     Chain_done (action_tuples @ [Take_help]) [] 0"
| "optional_chain Settings_action option_string sep None ((v, Pat_A) # rest) action_tuples =
     Chain_done (action_tuples @ [Take_settings v]) [] 1"
| "optional_chain Settings_action option_string sep None rest action_tuples =
     Chain_error Expected_one_argument"

text \<open>\<^verbatim>\<open>take_action\<close> on the collected actions, in order: help prints the help and exits
  (\<^verbatim>\<open>None\<close> here), settings stores the string.\<close>

fun take_actions :: "string option \<Rightarrow> taken list \<Rightarrow> string option option" where
  "take_actions settings [] = Some settings"
| "take_actions settings (Take_help # ts) = None"
| "take_actions settings (Take_settings v # ts) = take_actions (Some v) ts"

text \<open>The main loop of \<^verbatim>\<open>_parse_known_args\<close>. With no positional action to give them
  to, the strings that are not options go to the extras, as do the options of no known
  name. At the end the required settings must have been seen.\<close>

datatype parse_result =
    Parsed string "string list"
  | Usage_exit usage_error
  | Help_exit

function consume :: "string option \<Rightarrow> string list \<Rightarrow> (string \<times> pat) list \<Rightarrow> parse_result" where
  "consume settings extras [] =
     (case settings of None \<Rightarrow> Usage_exit Required_arguments | Some v \<Rightarrow> Parsed v extras)"
| "consume settings extras ((a, Pat_A) # rest) = consume settings (extras @ [a]) rest"
| "consume settings extras ((a, Pat_dash) # rest) = consume settings (extras @ [a]) rest"
| "consume settings extras ((a, Pat_O (None, option_string, sep, explicit_arg)) # rest) =
     consume settings (extras @ [a]) rest"
| "consume settings extras ((a, Pat_O (Some act, option_string, sep, explicit_arg)) # rest) =
     (case optional_chain act option_string sep explicit_arg rest [] of
        Chain_error e \<Rightarrow> Usage_exit e
      | Chain_done action_tuples new_extras n \<Rightarrow>
          (case take_actions settings action_tuples of
             None \<Rightarrow> Help_exit
           | Some settings' \<Rightarrow> consume settings' (extras @ new_extras) (drop n rest)))"
  by pat_completeness auto
termination
  by (relation "measure (\<lambda>(settings, extras, xs). length xs)") auto

definition parse_known_args :: "string list \<Rightarrow> parse_result" where
  "parse_known_args args =
     (case arg_patterns args of
        Inl e \<Rightarrow> Usage_exit e
      | Inr ps \<Rightarrow> consume None [] (zip args ps))"

text \<open>An unknown argument is a string that the parser matches with none of its options: a
  positional string, or an option of no known name. The settings are given by the flag
  followed by the blob as a positional string, or by \<^verbatim>\<open>--settings=\<close> and the blob in one
  string.\<close>

definition unknown_arg :: "string \<Rightarrow> bool" where
  "unknown_arg a =
     (a \<noteq> ''--'' \<and>
      (case parse_optional a of
         Inr None \<Rightarrow> True
       | Inr (Some (None, option_string, sep, explicit_arg)) \<Rightarrow> True
       | _ \<Rightarrow> False))"

definition positional_arg :: "string \<Rightarrow> bool" where
  "positional_arg a = (a \<noteq> ''--'' \<and> parse_optional a = Inr None)"

definition settings_given :: "string list \<Rightarrow> string \<Rightarrow> bool" where
  "settings_given toks blob =
     (toks = [''-s'', blob] \<and> positional_arg blob
      \<or> toks = [''--settings'', blob] \<and> positional_arg blob
      \<or> toks = [''--settings='' @ blob])"

fun skip_pat :: "pat \<Rightarrow> bool" where
  "skip_pat Pat_A = True"
| "skip_pat (Pat_O (None, option_string, sep, explicit_arg)) = True"
| "skip_pat _ = False"

section \<open>The entry point\<close>

text \<open>
  The block under \<^verbatim>\<open>if __name__ == "__main__"\<close>: parse the arguments, then, inside
  \<^verbatim>\<open>try\<close>, validate the settings and run \<^verbatim>\<open>main\<close>; \<^verbatim>\<open>except ValidationError\<close> prints
  the error, after which the script ends with no exit status of its own. What running the
  bot does (return when the pipeline ends, or raise) is up to the framework and is a
  parameter. An exit of \<^verbatim>\<open>argparse\<close> ends the script before the block.
\<close>

datatype script_effect =
    Print_usage usage_error
  | Print_help
  | Print py_exception
  | Asyncio_run_main BotSettings

datatype exit = Falls_through | Uncaught py_exception | SystemExit nat

record script_result =
  script_effects :: "script_effect list"
  script_exit :: exit

definition settings_block ::
  "json_parser \<Rightarrow> (BotSettings \<Rightarrow> outcome) \<Rightarrow> string \<Rightarrow> script_result" where
  "settings_block json_loads run_main blob =
     (case model_validate_json json_loads blob of
        Inl e \<Rightarrow>
          (if is_ValidationError e
           then \<lparr>script_effects = [Print e], script_exit = Falls_through\<rparr>
           else \<lparr>script_effects = [], script_exit = Uncaught e\<rparr>)
      | Inr settings \<Rightarrow>
          (case run_main settings of
             Returns \<Rightarrow>
               \<lparr>script_effects = [Asyncio_run_main settings], script_exit = Falls_through\<rparr>
           | Raises e \<Rightarrow>
               (if is_ValidationError e
                then \<lparr>script_effects = [Asyncio_run_main settings, Print e],
                      script_exit = Falls_through\<rparr>
                else \<lparr>script_effects = [Asyncio_run_main settings],
                      script_exit = Uncaught e\<rparr>)))"

definition script ::
  "json_parser \<Rightarrow> (BotSettings \<Rightarrow> outcome) \<Rightarrow> string list \<Rightarrow> script_result" where
  "script json_loads run_main argv =
     (case parse_known_args argv of
        Usage_exit e \<Rightarrow> \<lparr>script_effects = [Print_usage e], script_exit = SystemExit 2\<rparr>
      | Help_exit \<Rightarrow> \<lparr>script_effects = [Print_help], script_exit = SystemExit 0\<rparr>
      | Parsed blob unknown \<Rightarrow> settings_block json_loads run_main blob)"

text \<open>A parser for two sample blobs.\<close>

definition sample_loads :: json_parser where
  \<open>sample_loads blob =
     (if blob = ''{"room_url": "https://example.daily.co/room", "room_token": "token"}''
      then Some (PDict [''room_url'' \<mapsto> PStr ''https://example.daily.co/room'',
                        ''room_token'' \<mapsto> PStr ''token''])
      else if blob = ''{"room_token": "token"}''
      then Some (PDict [''room_token'' \<mapsto> PStr ''token''])
      else None)\<close>

definition quiet_main :: "BotSettings \<Rightarrow> outcome" where
  "quiet_main settings = Returns"

section \<open>Participant events\<close>

text \<open>C5: each participant-left event issues exactly one termination request, the
  \<^verbatim>\<open>EndFrame\<close> queued on the task, whatever the event carries and whatever the call
  does; the store is unchanged; a list of events issues one request per event.\<close>

theorem participant_left_one_end_frame:
  "effects (snd (on_participant_left w st participant reason)) = [Queue_frame EndFrame]
   \<and> fst (on_participant_left w st participant reason) = st
   \<and> left_events w st evs = (st, replicate (length evs) (Queue_frame EndFrame))"
proof -
  have "left_events w st evs = (st, replicate (length evs) (Queue_frame EndFrame))"
    by (induction evs) (auto simp: on_participant_left_def)
  then show ?thesis
    by (simp add: on_participant_left_def)
qed

lemma joined_events_run:
  "joined_events w m st ps
     = (st(m := st m @ replicate (length ps) introduction),
        replicate (length ps) (Queue_frames [LLMMessagesFrame m]))"
proof (induction ps arbitrary: st)
  case Nil
  show ?case by simp
next
  case (Cons p ps)
  show ?case
    by (simp add: Cons.IH on_first_participant_joined_def Let_def fun_eq_iff)
qed

text \<open>C6: every invocation of \<^verbatim>\<open>on_first_participant_joined\<close> appends the one
  instruction message to the shared transcript and enqueues one \<^verbatim>\<open>LLMMessagesFrame\<close>
  that holds that list; nothing makes a second invocation a no-op, so after n invocations
  the transcript has grown by n copies of the instruction.\<close>

theorem first_participant_joined_appends:
  "fst (on_first_participant_joined w msgs st participant)
     = st(msgs := st msgs @ [introduction])
   \<and> effects (snd (on_first_participant_joined w msgs st participant))
     = [Queue_frames [LLMMessagesFrame msgs]]
   \<and> joined_events w msgs st ps
     = (st(msgs := st msgs @ replicate (length ps) introduction),
        replicate (length ps) (Queue_frames [LLMMessagesFrame msgs]))"
  by (simp add: joined_events_run on_first_participant_joined_def Let_def)

section \<open>The latency ping\<close>

lemma body_ping:
  "carries_ts message ts \<Longrightarrow>
   app_message_body w message sender =
     (let log = Log_debug (Received_ping message);
          send = Send_message (pong ''latency-pong-msg-handler'' ts sender);
          push = Push_frame (pong ''latency-pong-pipeline-delivery'' ts sender)
      in case w send of
           Raises e \<Rightarrow> ([log, send], Some e)
         | Returns \<Rightarrow> ([log, send, push], case w push of Raises e \<Rightarrow> Some e | Returns \<Rightarrow> None))"
  by (cases message)
     (auto simp: app_message_body_def Let_def split: option.splits pyval.splits outcome.splits)

text \<open>C1, as amended: for a message \<^verbatim>\<open>{"latency-ping": {"ts": ts}}\<close> the handler makes
  exactly one immediate \<^verbatim>\<open>send_message\<close> call with \<^verbatim>\<open>{"latency-pong-msg-handler": {"ts": ts}}\<close>
  addressed to the sender and, when that call returns, exactly one \<^verbatim>\<open>push_frame\<close> call with
  \<^verbatim>\<open>{"latency-pong-pipeline-delivery": {"ts": ts}}\<close>; when the send raises, the push is
  never reached. These are all the replies, in this order.\<close>

theorem app_message_ping_replies:
  assumes "carries_ts message ts"
  shows "replies (on_app_message w message sender) =
           Send_message (pong ''latency-pong-msg-handler'' ts sender) #
           (case w (Send_message (pong ''latency-pong-msg-handler'' ts sender)) of
              Returns \<Rightarrow> [Push_frame (pong ''latency-pong-pipeline-delivery'' ts sender)]
            | Raises e \<Rightarrow> [])"
  using assms
  by (auto simp: on_app_message_def replies_def body_ping Let_def
           split: outcome.splits option.splits)

theorem app_message_ping_replies_witness:
  "carries_ts ping_5 (PInt 5) \<and>
   replies (on_app_message quiet_world ping_5 ''alice'') =
     [Send_message (pong ''latency-pong-msg-handler'' (PInt 5) ''alice''),
      Push_frame (pong ''latency-pong-pipeline-delivery'' (PInt 5) ''alice'')]"
proof -
  have h: "carries_ts ping_5 (PInt 5)" by (simp add: ping_5_def)
  show ?thesis
    using h app_message_ping_replies [OF h, of quiet_world "''alice''"]
    by (simp add: quiet_world_def)
qed

text \<open>The claim as stated promises both replies for every such message. Where the
  immediate send raises, the guard swallows the exception and the reply for the pipeline
  is not produced.\<close>

theorem app_message_failed_send_counterexample:
  "carries_ts ping_5 (PInt 5) \<and>
   replies (on_app_message failing_send_world ping_5 ''alice'') =
     [Send_message (pong ''latency-pong-msg-handler'' (PInt 5) ''alice'')] \<and>
   replies (on_app_message failing_send_world ping_5 ''alice'') \<noteq>
     [Send_message (pong ''latency-pong-msg-handler'' (PInt 5) ''alice''),
      Push_frame (pong ''latency-pong-pipeline-delivery'' (PInt 5) ''alice'')]"
  by (simp add: ping_5_def on_app_message_def app_message_body_def replies_def
      failing_send_world_def Let_def)

section \<open>The guard of the message handler\<close>

lemma body_no_key:
  "\<not> has_key ''latency-ping'' message \<Longrightarrow>
   fst (app_message_body w message sender) = [] \<or>
   fst (app_message_body w message sender) = [Log_debug (Received_ping message)]"
  by (cases message) (auto simp: app_message_body_def Let_def split: bool.splits)

lemma body_no_key_exn:
  "\<not> has_key ''latency-ping'' message \<Longrightarrow> snd (app_message_body w message sender) = Some e
   \<Longrightarrow> e = TypeError"
  by (cases message) (auto simp: app_message_body_def Let_def split: bool.splits if_splits)

lemma py_getitem_raises:
  "py_getitem v k = Inl e \<Longrightarrow> e = TypeError \<or> e = KeyError k"
  by (cases v) (auto split: option.splits)

lemma body_raised:
  "snd (app_message_body w message sender) = Some e \<Longrightarrow>
   e = TypeError \<or> (\<exists>k. e = KeyError k) \<or> (\<exists>c. is_reply c \<and> w c = Raises e)"
  by (cases message)
     (auto simp: app_message_body_def Let_def
           dest: py_getitem_raises
           split: bool.splits option.splits sum.splits outcome.splits)

text \<open>C4, as amended: a message that is not a dict with the key \<^verbatim>\<open>"latency-ping"\<close> gets no
  reply and lets no exception out; for every message, an exception raised in the body
  whose class derives from \<^verbatim>\<open>Exception\<close> is caught, logged and dropped; an exception that
  does leave the handler does not derive from \<^verbatim>\<open>Exception\<close> and was raised by one of the
  two reply calls.\<close>

theorem app_message_guard:
  "(\<not> has_key ''latency-ping'' message \<longrightarrow>
      replies (on_app_message w message sender) = [] \<and>
      escaped (on_app_message w message sender) = None)
   \<and> (\<forall>e. snd (app_message_body w message sender) = Some e \<and> is_Exception e \<longrightarrow>
         escaped (on_app_message w message sender) = None \<and>
         effects (on_app_message w message sender) =
           fst (app_message_body w message sender) @ [Log_debug (Handling_error e message)])
   \<and> (\<forall>e. escaped (on_app_message w message sender) = Some e \<longrightarrow>
         \<not> is_Exception e \<and> (\<exists>c. is_reply c \<and> w c = Raises e))"
proof (intro conjI impI allI)
  assume nk: "\<not> has_key ''latency-ping'' message"
  obtain effs r where b: "app_message_body w message sender = (effs, r)"
    by (cases "app_message_body w message sender")
  from body_no_key [OF nk, of w sender] b
  have e: "effs = [] \<or> effs = [Log_debug (Received_ping message)]" by simp
  from body_no_key_exn [OF nk, of w sender] b
  have r: "r = None \<or> r = Some TypeError" by (cases r) auto
  from e r b show "replies (on_app_message w message sender) = []"
    by (auto simp: on_app_message_def replies_def)
  from e r b show "escaped (on_app_message w message sender) = None"
    by (auto simp: on_app_message_def)
next
  fix e
  assume a: "snd (app_message_body w message sender) = Some e \<and> is_Exception e"
  then show "escaped (on_app_message w message sender) = None"
    by (cases "app_message_body w message sender") (simp add: on_app_message_def)
  from a show "effects (on_app_message w message sender) =
           fst (app_message_body w message sender) @ [Log_debug (Handling_error e message)]"
    by (cases "app_message_body w message sender") (simp add: on_app_message_def)
next
  fix e
  assume a: "escaped (on_app_message w message sender) = Some e"
  obtain effs r where b: "app_message_body w message sender = (effs, r)"
    by (cases "app_message_body w message sender")
  from a b have r: "r = Some e" and ne: "\<not> is_Exception e"
    by (auto simp: on_app_message_def split: option.splits if_splits)
  from ne show "\<not> is_Exception e" .
  from body_raised [of w message sender e] b r
  have "e = TypeError \<or> (\<exists>k. e = KeyError k) \<or> (\<exists>c. is_reply c \<and> w c = Raises e)" by simp
  with ne show "\<exists>c. is_reply c \<and> w c = Raises e" by auto
qed

theorem app_message_guard_witness:
  "\<not> has_key ''latency-ping'' (PStr ''a latency-ping'')
   \<and> replies (on_app_message quiet_world (PStr ''a latency-ping'') ''alice'') = []
   \<and> escaped (on_app_message quiet_world (PStr ''a latency-ping'') ''alice'') = None
   \<and> snd (app_message_body failing_send_world ping_5 ''alice'')
       = Some (Raised Derives_Exception ''RuntimeError'')
   \<and> is_Exception (Raised Derives_Exception ''RuntimeError'')
   \<and> escaped (on_app_message failing_send_world ping_5 ''alice'') = None
   \<and> escaped (on_app_message cancelled_push_world ping_5 ''alice'')
       = Some (Raised BaseException_only ''CancelledError'')
   \<and> \<not> is_Exception (Raised BaseException_only ''CancelledError'')"
proof -
  have h1: "\<not> has_key ''latency-ping'' (PStr ''a latency-ping'')" by simp
  have h2: "snd (app_message_body failing_send_world ping_5 ''alice'')
       = Some (Raised Derives_Exception ''RuntimeError'')"
    by (simp add: app_message_body_def ping_5_def failing_send_world_def Let_def)
  have h3: "escaped (on_app_message cancelled_push_world ping_5 ''alice'')
       = Some (Raised BaseException_only ''CancelledError'')"
    by (simp add: on_app_message_def app_message_body_def ping_5_def
        cancelled_push_world_def Let_def)
  from app_message_guard [of "PStr ''a latency-ping''" quiet_world "''alice''"] h1
  have a: "replies (on_app_message quiet_world (PStr ''a latency-ping'') ''alice'') = []
   \<and> escaped (on_app_message quiet_world (PStr ''a latency-ping'') ''alice'') = None"
    by blast
  from app_message_guard [of ping_5 failing_send_world "''alice''"] h2
  have b: "escaped (on_app_message failing_send_world ping_5 ''alice'') = None"
    by simp
  from app_message_guard [of ping_5 cancelled_push_world "''alice''"] h3
  have c: "\<not> is_Exception (Raised BaseException_only ''CancelledError'')"
    by blast
  from h1 h2 h3 a b c show ?thesis by simp
qed

text \<open>The claim as stated lets no exception out, for any message. The guard is
  \<^verbatim>\<open>except Exception\<close>: a cancellation that arrives while the handler awaits
  \<^verbatim>\<open>push_frame\<close> raises \<^verbatim>\<open>asyncio.CancelledError\<close>, which passes it.\<close>

theorem app_message_cancelled_counterexample:
  "escaped (on_app_message cancelled_push_world ping_5 ''alice'')
     = Some (Raised BaseException_only ''CancelledError'')"
  by (simp add: on_app_message_def app_message_body_def ping_5_def
      cancelled_push_world_def Let_def)

section \<open>Configuration of the services\<close>

lemma kwarg_if_set_iff:
  "kwarg_if_set env key name k = Some v
     \<longleftrightarrow> k = key \<and> (\<exists>u. env name = Some u \<and> u \<noteq> [] \<and> v = KStr u)"
  by (auto simp: kwarg_if_set_def split: option.splits if_splits)

text \<open>C7, as amended: the transport is constructed from \<^verbatim>\<open>room_url\<close>, \<^verbatim>\<open>room_token\<close> and
  \<^verbatim>\<open>bot_name\<close> of the settings record; the speech services get \<^verbatim>\<open>DEEPGRAM_API_KEY\<close> as
  their key and their endpoint keyword (\<^verbatim>\<open>url\<close> from \<^verbatim>\<open>DEEPGRAM_STT_URL\<close>, \<^verbatim>\<open>base_url\<close>
  from \<^verbatim>\<open>DEEPGRAM_TTS_BASE_URL\<close>) exactly when the variable is set and not empty, with its
  value; the language service is always passed \<^verbatim>\<open>api_key\<close>, \<^verbatim>\<open>model\<close> and \<^verbatim>\<open>base_url\<close>,
  each with what \<^verbatim>\<open>os.getenv\<close> returns for \<^verbatim>\<open>OPENAI_API_KEY\<close>, \<^verbatim>\<open>OPENAI_MODEL\<close> and
  \<^verbatim>\<open>OPENAI_BASE_URL\<close>, \<^verbatim>\<open>None\<close> when the variable is not set.\<close>

theorem main_services_configuration:
  "transport_room_url (fst (main env settings h)) = room_url settings
   \<and> transport_token (fst (main env settings h)) = room_token settings
   \<and> transport_bot_name (fst (main env settings h)) = bot_name settings
   \<and> stt_kwargs (fst (main env settings h)) ''api_key'' = Some (os_getenv env ''DEEPGRAM_API_KEY'')
   \<and> (\<forall>v. stt_kwargs (fst (main env settings h)) ''url'' = Some v
          \<longleftrightarrow> (\<exists>u. env ''DEEPGRAM_STT_URL'' = Some u \<and> u \<noteq> [] \<and> v = KStr u))
   \<and> tts_kwargs (fst (main env settings h)) ''api_key'' = Some (os_getenv env ''DEEPGRAM_API_KEY'')
   \<and> tts_kwargs (fst (main env settings h)) ''voice'' = Some (KStr ''aura-asteria-en'')
   \<and> (\<forall>v. tts_kwargs (fst (main env settings h)) ''base_url'' = Some v
          \<longleftrightarrow> (\<exists>u. env ''DEEPGRAM_TTS_BASE_URL'' = Some u \<and> u \<noteq> [] \<and> v = KStr u))
   \<and> llm_kwargs (fst (main env settings h)) ''api_key'' = Some (os_getenv env ''OPENAI_API_KEY'')
   \<and> llm_kwargs (fst (main env settings h)) ''model'' = Some (os_getenv env ''OPENAI_MODEL'')
   \<and> llm_kwargs (fst (main env settings h)) ''base_url'' = Some (os_getenv env ''OPENAI_BASE_URL'')"
proof -
  obtain msgs h' where n: "new_list h
      [PDict [''role'' \<mapsto> PStr ''system'', ''content'' \<mapsto> PStr system_prompt]] = (msgs, h')"
    by (cases "new_list h
      [PDict [''role'' \<mapsto> PStr ''system'', ''content'' \<mapsto> PStr system_prompt]]")
  have kn: "\<And>key name k. k \<noteq> key \<Longrightarrow> kwarg_if_set env key name k = None"
    by (simp add: kwarg_if_set_def split: option.splits)
  show ?thesis
    unfolding main_def n
    by (simp add: map_add_Some_iff kwarg_if_set_iff kn Let_def)
qed

text \<open>The claim as stated passes an endpoint override only when its variable is set and
  not empty. \<^verbatim>\<open>base_url\<close> of the language service is passed in every case: as the empty
  string when \<^verbatim>\<open>OPENAI_BASE_URL\<close> is set to the empty string, as \<^verbatim>\<open>None\<close> when it is not
  set.\<close>

theorem main_openai_base_url_counterexample:
  "empty_base_url_env ''OPENAI_BASE_URL'' = Some []
   \<and> llm_kwargs (fst (main empty_base_url_env settings_a empty_heap)) ''base_url'' = Some (KStr [])
   \<and> bare_env ''OPENAI_BASE_URL'' = None
   \<and> llm_kwargs (fst (main bare_env settings_a empty_heap)) ''base_url'' = Some KNone"
  by (simp add: main_def new_list_def empty_base_url_env_def bare_env_def os_getenv_def
      split_def Let_def)

section \<open>The shared transcript\<close>

text \<open>C8: the transcript is one list. Both aggregators are constructed with the address of
  the list that \<^verbatim>\<open>main\<close> created, which is the list the first-participant-joined handler
  appends to; so after the handler has run, once or any number of times, the list read
  through either aggregator's reference is the old transcript followed by the appended
  instructions.\<close>

theorem transcript_shared_by_reference:
  "tma_in_messages (fst (main env settings h)) = messages (fst (main env settings h))
   \<and> tma_out_messages (fst (main env settings h)) = messages (fst (main env settings h))
   \<and> fst (fire_first_participant_joined w (fst (main env settings h)) st participant)
        (tma_in_messages (fst (main env settings h)))
       = st (messages (fst (main env settings h))) @ [introduction]
   \<and> fst (fire_first_participant_joined w (fst (main env settings h)) st participant)
        (tma_out_messages (fst (main env settings h)))
       = st (messages (fst (main env settings h))) @ [introduction]
   \<and> fst (joined_events w (messages (fst (main env settings h))) st ps)
        (tma_in_messages (fst (main env settings h)))
       = st (messages (fst (main env settings h))) @ replicate (length ps) introduction
   \<and> fst (joined_events w (messages (fst (main env settings h))) st ps)
        (tma_out_messages (fst (main env settings h)))
       = st (messages (fst (main env settings h))) @ replicate (length ps) introduction"
proof -
  have a: "tma_in_messages (fst (main env settings h)) = messages (fst (main env settings h))"
    by (simp add: main_def split_def Let_def)
  have b: "tma_out_messages (fst (main env settings h)) = messages (fst (main env settings h))"
    by (simp add: main_def split_def Let_def)
  show ?thesis
    unfolding a b
    by (simp add: fire_first_participant_joined_def on_first_participant_joined_def
        joined_events_run Let_def)
qed

section \<open>The settings that are read\<close>

text \<open>C10: two settings records that agree on \<^verbatim>\<open>room_url\<close>, \<^verbatim>\<open>room_token\<close> and
  \<^verbatim>\<open>bot_name\<close> make \<^verbatim>\<open>main\<close> build the same bot in the same environment and heap,
  however they differ in the other seven fields: \<^verbatim>\<open>main\<close> reads no other field.\<close>

theorem main_reads_three_settings:
  assumes "room_url s1 = room_url s2"
    and "room_token s1 = room_token s2"
    and "bot_name s1 = bot_name s2"
  shows "main env s1 h = main env s2 h"
  using assms by (simp add: main_def Let_def)

theorem main_reads_three_settings_witness:
  "room_url settings_a = room_url settings_b
   \<and> room_token settings_a = room_token settings_b
   \<and> bot_name settings_a = bot_name settings_b
   \<and> prompt settings_a \<noteq> prompt settings_b
   \<and> openai_base_url settings_a \<noteq> openai_base_url settings_b
   \<and> main bare_env settings_a empty_heap = main bare_env settings_b empty_heap"
proof -
  have u: "room_url settings_a = room_url settings_b"
    and t: "room_token settings_a = room_token settings_b"
    and n: "bot_name settings_a = bot_name settings_b"
    by (simp_all add: settings_a_def settings_b_def)
  have d: "prompt settings_a \<noteq> prompt settings_b"
    "openai_base_url settings_a \<noteq> openai_base_url settings_b"
    by (simp_all add: settings_a_def settings_b_def default_prompt_def)
  from main_reads_three_settings [OF u t n, of bare_env empty_heap] u t n d
  show ?thesis by simp
qed

section \<open>Settings that match the schema\<close>

text \<open>Validation succeeds exactly on the objects that match the schema, and then gives
  the record of the given values and the defaults.\<close>

lemma collect_Inr_iff:
  "collect f x = Inr y \<longleftrightarrow> (\<exists>g v. f = Inr g \<and> x = Inr v \<and> y = g v)"
  by (cases f; cases x) auto

lemma required_str_iff:
  "required_field m k validate_str = Inr s \<longleftrightarrow> m k = Some (PStr s)"
  by (cases "m k"; simp add: required_field_def; cases "the (m k)"; auto)

lemma required_str_ok:
  "(\<exists>s. required_field m k validate_str = Inr s) \<longleftrightarrow> present_and m k is_string"
  unfolding present_and_def required_field_def
  by (cases "m k"; simp; cases "the (m k)"; simp)

lemma default_str_ok:
  "(\<exists>s. field_with_default m k validate_str d = Inr s) \<longleftrightarrow> absent_or m k is_string"
  unfolding absent_or_def field_with_default_def
  by (cases "m k"; simp; cases "the (m k)"; simp)

lemma default_str_val:
  "field_with_default m k validate_str d = Inr s \<Longrightarrow> s = str_field m k d"
  unfolding str_field_def field_with_default_def
  by (cases "m k"; simp; cases "the (m k)"; simp)

lemma default_opt_ok:
  "(\<exists>s. field_with_default m k validate_optional_str d = Inr s) \<longleftrightarrow> absent_or m k is_string_or_null"
  unfolding absent_or_def field_with_default_def
  by (cases "m k"; simp; cases "the (m k)"; simp)

lemma default_opt_val:
  "field_with_default m k validate_optional_str d = Inr s \<Longrightarrow> s = opt_field m k d"
  unfolding opt_field_def field_with_default_def
  by (cases "m k"; simp; cases "the (m k)"; simp)

lemma model_validate_Inr_iff:
  "model_validate (PDict m) = Inr s \<longleftrightarrow>
     matches_schema (PDict m) \<and>
     s = make_settings (str_field m ''room_url'' []) (str_field m ''room_token'' [])
           (str_field m ''bot_name'' ''Pipecat'')
           (opt_field m ''prompt'' (Some default_prompt))
           (opt_field m ''deepgram_api_key'' None)
           (opt_field m ''deepgram_voice'' (Some ''aura-asteria-en''))
           (opt_field m ''deepgram_base_url'' (Some ''https://api.deepgram.com/v1/speak''))
           (opt_field m ''openai_api_key'' None)
           (opt_field m ''openai_model'' (Some ''gpt-4o''))
           (opt_field m ''openai_base_url'' None)"
  (is "?L \<longleftrightarrow> ?R")
proof
  assume ?L
  then obtain u t n p dk dv db ok om ob where
    f: "required_field m ''room_url'' validate_str = Inr u"
       "required_field m ''room_token'' validate_str = Inr t"
       "field_with_default m ''bot_name'' validate_str ''Pipecat'' = Inr n"
       "field_with_default m ''prompt'' validate_optional_str (Some default_prompt) = Inr p"
       "field_with_default m ''deepgram_api_key'' validate_optional_str None = Inr dk"
       "field_with_default m ''deepgram_voice'' validate_optional_str (Some ''aura-asteria-en'') = Inr dv"
       "field_with_default m ''deepgram_base_url'' validate_optional_str
          (Some ''https://api.deepgram.com/v1/speak'') = Inr db"
       "field_with_default m ''openai_api_key'' validate_optional_str None = Inr ok"
       "field_with_default m ''openai_model'' validate_optional_str (Some ''gpt-4o'') = Inr om"
       "field_with_default m ''openai_base_url'' validate_optional_str None = Inr ob"
    and s: "s = make_settings u t n p dk dv db ok om ob"
    by (auto simp: collect_Inr_iff)
  have sch: "matches_schema (PDict m)"
    using f required_str_ok [of m] default_str_ok [of m] default_opt_ok [of m]
    by (simp only: matches_schema.simps) blast
  have "u = str_field m ''room_url'' []" "t = str_field m ''room_token'' []"
    using f(1,2) by (simp_all add: required_str_iff str_field_def)
  with s sch f(3-10) show ?R
    by (auto dest!: default_str_val default_opt_val)
next
  assume r: ?R
  then have sch: "matches_schema (PDict m)" by simp
  from sch obtain u where u: "required_field m ''room_url'' validate_str = Inr u"
    using required_str_ok [of m "''room_url''"] by auto
  from sch obtain t where t: "required_field m ''room_token'' validate_str = Inr t"
    using required_str_ok [of m "''room_token''"] by auto
  from sch obtain n where n: "field_with_default m ''bot_name'' validate_str ''Pipecat'' = Inr n"
    using default_str_ok [of m "''bot_name''"] by auto
  from sch obtain p where
    p: "field_with_default m ''prompt'' validate_optional_str (Some default_prompt) = Inr p"
    using default_opt_ok [of m "''prompt''"] by auto
  from sch obtain dk where
    dk: "field_with_default m ''deepgram_api_key'' validate_optional_str None = Inr dk"
    using default_opt_ok [of m "''deepgram_api_key''"] by auto
  from sch obtain dv where
    dv: "field_with_default m ''deepgram_voice'' validate_optional_str (Some ''aura-asteria-en'') = Inr dv"
    using default_opt_ok [of m "''deepgram_voice''"] by auto
  from sch obtain db where
    db: "field_with_default m ''deepgram_base_url'' validate_optional_str
          (Some ''https://api.deepgram.com/v1/speak'') = Inr db"
    using default_opt_ok [of m "''deepgram_base_url''"] by auto
  from sch obtain ok where
    ok: "field_with_default m ''openai_api_key'' validate_optional_str None = Inr ok"
    using default_opt_ok [of m "''openai_api_key''"] by auto
  from sch obtain om where
    om: "field_with_default m ''openai_model'' validate_optional_str (Some ''gpt-4o'') = Inr om"
    using default_opt_ok [of m "''openai_model''"] by auto
  from sch obtain ob where
    ob: "field_with_default m ''openai_base_url'' validate_optional_str None = Inr ob"
    using default_opt_ok [of m "''openai_base_url''"] by auto
  have "u = str_field m ''room_url'' []" "t = str_field m ''room_token'' []"
    using u t by (simp_all add: required_str_iff str_field_def)
  moreover note default_str_val [OF n] default_opt_val [OF p] default_opt_val [OF dk]
    default_opt_val [OF dv] default_opt_val [OF db] default_opt_val [OF ok]
    default_opt_val [OF om] default_opt_val [OF ob]
  ultimately have "s = make_settings u t n p dk dv db ok om ob"
    using r by simp
  then show ?L
    by (simp add: u t n p dk dv db ok om ob)
qed

text \<open>C2: when the settings text is JSON for an object that matches the schema of
  \<^verbatim>\<open>BotSettings\<close>, \<^verbatim>\<open>model_validate_json\<close> succeeds; the record holds the two required
  strings as given, and every field whose key the object omits holds the default the class
  declares: \<^verbatim>\<open>"Pipecat"\<close>, the default prompt, \<^verbatim>\<open>"aura-asteria-en"\<close>,
  \<^verbatim>\<open>"https://api.deepgram.com/v1/speak"\<close>, \<^verbatim>\<open>"gpt-4o"\<close>, and \<^verbatim>\<open>None\<close> for the two keys
  and the base URL of the language service.\<close>

theorem settings_defaults:
  assumes "json_loads blob = Some (PDict m)"
    and "matches_schema (PDict m)"
  shows "\<exists>s. model_validate_json json_loads blob = Inr s
           \<and> m ''room_url'' = Some (PStr (room_url s))
           \<and> m ''room_token'' = Some (PStr (room_token s))
           \<and> (m ''bot_name'' = None \<longrightarrow> bot_name s = ''Pipecat'')
           \<and> (m ''prompt'' = None \<longrightarrow> prompt s = Some default_prompt)
           \<and> (m ''deepgram_api_key'' = None \<longrightarrow> deepgram_api_key s = None)
           \<and> (m ''deepgram_voice'' = None \<longrightarrow> deepgram_voice s = Some ''aura-asteria-en'')
           \<and> (m ''deepgram_base_url'' = None
                \<longrightarrow> deepgram_base_url s = Some ''https://api.deepgram.com/v1/speak'')
           \<and> (m ''openai_api_key'' = None \<longrightarrow> openai_api_key s = None)
           \<and> (m ''openai_model'' = None \<longrightarrow> openai_model s = Some ''gpt-4o'')
           \<and> (m ''openai_base_url'' = None \<longrightarrow> openai_base_url s = None)"
proof -
  from assms(2) obtain s where s: "model_validate (PDict m) = Inr s"
    using model_validate_Inr_iff [of m] by blast
  from assms(2) have u: "\<exists>v. m ''room_url'' = Some (PStr v)"
    and t: "\<exists>v. m ''room_token'' = Some (PStr v)"
    using required_str_ok [of m] required_str_iff [of m] by auto
  from s have eq: "s = make_settings (str_field m ''room_url'' []) (str_field m ''room_token'' [])
           (str_field m ''bot_name'' ''Pipecat'')
           (opt_field m ''prompt'' (Some default_prompt))
           (opt_field m ''deepgram_api_key'' None)
           (opt_field m ''deepgram_voice'' (Some ''aura-asteria-en''))
           (opt_field m ''deepgram_base_url'' (Some ''https://api.deepgram.com/v1/speak''))
           (opt_field m ''openai_api_key'' None)
           (opt_field m ''openai_model'' (Some ''gpt-4o''))
           (opt_field m ''openai_base_url'' None)"
    using model_validate_Inr_iff [of m s] by blast
  have v: "model_validate_json json_loads blob = Inr s"
    by (simp add: model_validate_json_def assms(1) s del: model_validate.simps)
  from u obtain uv where uv: "m ''room_url'' = Some (PStr uv)" by blast
  from t obtain tv where tv: "m ''room_token'' = Some (PStr tv)" by blast
  have ru: "m ''room_url'' = Some (PStr (room_url s))"
    by (simp add: eq make_settings_def str_field_def uv)
  have rt: "m ''room_token'' = Some (PStr (room_token s))"
    by (simp add: eq make_settings_def str_field_def tv)
  have d: "m ''bot_name'' = None \<longrightarrow> bot_name s = ''Pipecat''"
    "m ''prompt'' = None \<longrightarrow> prompt s = Some default_prompt"
    "m ''deepgram_api_key'' = None \<longrightarrow> deepgram_api_key s = None"
    "m ''deepgram_voice'' = None \<longrightarrow> deepgram_voice s = Some ''aura-asteria-en''"
    "m ''deepgram_base_url'' = None
       \<longrightarrow> deepgram_base_url s = Some ''https://api.deepgram.com/v1/speak''"
    "m ''openai_api_key'' = None \<longrightarrow> openai_api_key s = None"
    "m ''openai_model'' = None \<longrightarrow> openai_model s = Some ''gpt-4o''"
    "m ''openai_base_url'' = None \<longrightarrow> openai_base_url s = None"
    by (simp_all add: eq make_settings_def str_field_def opt_field_def)
  show ?thesis
    apply (rule exI [of _ s])
    apply (intro conjI)
    apply (rule v ru rt d)+
    done
qed

theorem settings_defaults_witness:
  \<open>\<exists>s. model_validate_json sample_loads
         ''{"room_url": "https://example.daily.co/room", "room_token": "token"}'' = Inr s
       \<and> room_url s = ''https://example.daily.co/room''
       \<and> room_token s = ''token''
       \<and> bot_name s = ''Pipecat''
       \<and> prompt s = Some default_prompt
       \<and> deepgram_api_key s = None
       \<and> deepgram_voice s = Some ''aura-asteria-en''
       \<and> deepgram_base_url s = Some ''https://api.deepgram.com/v1/speak''
       \<and> openai_api_key s = None
       \<and> openai_model s = Some ''gpt-4o''
       \<and> openai_base_url s = None\<close>
proof -
  let ?m = "[''room_url'' \<mapsto> PStr ''https://example.daily.co/room'',
             ''room_token'' \<mapsto> PStr ''token'']"
  have l: \<open>sample_loads ''{"room_url": "https://example.daily.co/room", "room_token": "token"}''
           = Some (PDict ?m)\<close>
    by (simp add: sample_loads_def)
  have k: "matches_schema (PDict ?m)"
    by (simp add: present_and_def absent_or_def)
  from settings_defaults
         [of sample_loads
             \<open>''{"room_url": "https://example.daily.co/room", "room_token": "token"}''\<close> "?m",
          OF l k]
  obtain s where
    s: \<open>model_validate_json sample_loads
         ''{"room_url": "https://example.daily.co/room", "room_token": "token"}'' = Inr s\<close>
      "room_url s = ''https://example.daily.co/room''"
      "room_token s = ''token''"
      "bot_name s = ''Pipecat''"
      "prompt s = Some default_prompt"
      "deepgram_api_key s = None"
      "deepgram_voice s = Some ''aura-asteria-en''"
      "deepgram_base_url s = Some ''https://api.deepgram.com/v1/speak''"
      "openai_api_key s = None"
      "openai_model s = Some ''gpt-4o''"
      "openai_base_url s = None"
    by auto
  then show ?thesis
    by (intro exI [of _ s]) simp
qed

section \<open>Settings that violate the schema\<close>

text \<open>A failed validation reports at least one error, and every value that does not match
  the schema fails; an object without \<^verbatim>\<open>room_url\<close> is one.\<close>

lemma collect_nonempty:
  "f \<noteq> Inl [] \<Longrightarrow> x \<noteq> Inl [] \<Longrightarrow> collect f x \<noteq> Inl []"
  by (cases f; cases x) auto

lemma required_str_nonempty: "required_field m k validate_str \<noteq> Inl []"
  unfolding required_field_def
  by (cases "m k"; simp; cases "the (m k)"; simp)

lemma default_str_nonempty: "field_with_default m k validate_str d \<noteq> Inl []"
  unfolding field_with_default_def
  by (cases "m k"; simp; cases "the (m k)"; simp)

lemma default_opt_nonempty: "field_with_default m k validate_optional_str d \<noteq> Inl []"
  unfolding field_with_default_def
  by (cases "m k"; simp; cases "the (m k)"; simp)

lemma model_validate_nonempty: "model_validate j \<noteq> Inl []"
proof (cases j)
  case (PDict m)
  show ?thesis
    unfolding PDict model_validate.simps
    by (intro collect_nonempty required_str_nonempty default_str_nonempty default_opt_nonempty)
       simp
qed simp_all

lemma model_validate_rejects:
  assumes "\<not> matches_schema j"
  shows "\<exists>errs. errs \<noteq> [] \<and> model_validate j = Inl errs"
proof (cases "model_validate j")
  case (Inl errs)
  with model_validate_nonempty [of j] show ?thesis by auto
next
  case (Inr s)
  show ?thesis
  proof (cases j)
    case (PDict m)
    with Inr assms show ?thesis
      using model_validate_Inr_iff [of m s] by blast
  qed (use Inr in simp_all)
qed

lemma missing_room_url_violates: "m ''room_url'' = None \<Longrightarrow> \<not> matches_schema (PDict m)"
  by (simp add: present_and_def)

text \<open>C3: when the settings text is not JSON, or is JSON for a value that violates the
  schema of \<^verbatim>\<open>BotSettings\<close> (an object without \<^verbatim>\<open>room_url\<close>, say), validation raises a
  \<^verbatim>\<open>ValidationError\<close> with at least one error; the entry point prints it and does nothing
  else: \<^verbatim>\<open>main\<close> is not run, and the script falls through to its end without setting an
  exit status.\<close>

theorem invalid_settings_print_and_fall_through:
  assumes "json_loads blob = None \<or> (\<exists>j. json_loads blob = Some j \<and> \<not> matches_schema j)"
  shows "\<exists>errs. errs \<noteq> []
           \<and> model_validate_json json_loads blob = Inl (ValidationError errs)
           \<and> settings_block json_loads run_main blob
               = \<lparr>script_effects = [Print (ValidationError errs)], script_exit = Falls_through\<rparr>"
  using assms
proof
  assume "json_loads blob = None"
  then show ?thesis
    by (simp add: model_validate_json_def settings_block_def)
next
  assume "\<exists>j. json_loads blob = Some j \<and> \<not> matches_schema j"
  then obtain j where j: "json_loads blob = Some j" and n: "\<not> matches_schema j" by blast
  from model_validate_rejects [OF n] obtain errs where
    "errs \<noteq> []" "model_validate j = Inl errs" by blast
  with j show ?thesis
    by (simp add: model_validate_json_def settings_block_def del: model_validate.simps)
qed

theorem invalid_settings_print_and_fall_through_witness:
  \<open>sample_loads ''{"room_token": "token"}'' = Some (PDict [''room_token'' \<mapsto> PStr ''token''])
   \<and> \<not> matches_schema (PDict [''room_token'' \<mapsto> PStr ''token''])
   \<and> model_validate_json sample_loads ''{"room_token": "token"}''
       = Inl (ValidationError [Missing ''room_url''])
   \<and> settings_block sample_loads quiet_main ''{"room_token": "token"}''
       = \<lparr>script_effects = [Print (ValidationError [Missing ''room_url''])],
          script_exit = Falls_through\<rparr>\<close>
proof -
  have l: \<open>sample_loads ''{"room_token": "token"}''
           = Some (PDict [''room_token'' \<mapsto> PStr ''token''])\<close>
    by (simp add: sample_loads_def)
  have k: "\<not> matches_schema (PDict [''room_token'' \<mapsto> PStr ''token''])"
    by (simp add: present_and_def)
  have v: \<open>model_validate_json sample_loads ''{"room_token": "token"}''
       = Inl (ValidationError [Missing ''room_url''])\<close>
    by (simp add: model_validate_json_def l required_field_def field_with_default_def)
  from l k have \<open>sample_loads ''{"room_token": "token"}'' = None
      \<or> (\<exists>j. sample_loads ''{"room_token": "token"}'' = Some j \<and> \<not> matches_schema j)\<close>
    by blast
  from invalid_settings_print_and_fall_through
         [of sample_loads \<open>''{"room_token": "token"}''\<close> quiet_main, OF this] l k v
  show ?thesis
    by auto
qed

section \<open>Unknown arguments\<close>

text \<open>Unknown arguments take no part in the pattern of the strings around them, and the
  main loop passes them to the extras. A string that does not start with \<^verbatim>\<open>-\<close> is
  positional, so it is an unknown argument where it is extra and a blob where it follows
  the flag.\<close>

lemma not_dashed_positional: "a = [] \<or> hd a \<noteq> CHR ''-'' \<Longrightarrow> positional_arg a"
  by (auto simp: positional_arg_def parse_optional_def)

lemma positional_unknown: "positional_arg a \<Longrightarrow> unknown_arg a"
  by (simp add: positional_arg_def unknown_arg_def)

lemma unknown_arg_pattern:
  assumes "unknown_arg a"
  shows "\<exists>p. skip_pat p \<and>
           (\<forall>rest. arg_patterns (a # rest) =
             (case arg_patterns rest of Inl e \<Rightarrow> Inl e | Inr qs \<Rightarrow> Inr (p # qs)))"
proof (cases "parse_optional a")
  case (Inl e)
  with assms show ?thesis by (simp add: unknown_arg_def)
next
  case (Inr t)
  show ?thesis
  proof (cases t)
    case None
    with Inr assms have "\<forall>rest. arg_patterns (a # rest) =
        (case arg_patterns rest of Inl e \<Rightarrow> Inl e | Inr qs \<Rightarrow> Inr (Pat_A # qs))"
      by (simp add: unknown_arg_def split: sum.splits)
    then show ?thesis by (intro exI [of _ Pat_A]) simp
  next
    case (Some tup)
    obtain act os sep ex where tup: "tup = (act, os, sep, ex)" by (cases tup)
    with Some Inr assms have act: "act = None"
      by (cases act) (simp_all add: unknown_arg_def)
    with tup Some Inr assms have "\<forall>rest. arg_patterns (a # rest) =
        (case arg_patterns rest of Inl e \<Rightarrow> Inl e
         | Inr qs \<Rightarrow> Inr (Pat_O (None, os, sep, ex) # qs))"
      by (simp add: unknown_arg_def split: sum.splits)
    then show ?thesis by (intro exI [of _ "Pat_O (None, os, sep, ex)"]) simp
  qed
qed

lemma unknown_args_patterns:
  "list_all unknown_arg xs \<Longrightarrow>
   \<exists>ps. length ps = length xs \<and> list_all skip_pat ps \<and>
        (\<forall>ys. arg_patterns (xs @ ys) =
           (case arg_patterns ys of Inl e \<Rightarrow> Inl e | Inr qs \<Rightarrow> Inr (ps @ qs)))"
proof (induction xs)
  case Nil
  show ?case by (intro exI [of _ "[]"]) (simp split: sum.splits)
next
  case (Cons a xs)
  then obtain ps where ps: "length ps = length xs" "list_all skip_pat ps"
    "\<And>ys. arg_patterns (xs @ ys) =
           (case arg_patterns ys of Inl e \<Rightarrow> Inl e | Inr qs \<Rightarrow> Inr (ps @ qs))"
    by auto
  from Cons.prems have "unknown_arg a" by simp
  then obtain p where p: "skip_pat p"
    "\<And>rest. arg_patterns (a # rest) =
             (case arg_patterns rest of Inl e \<Rightarrow> Inl e | Inr qs \<Rightarrow> Inr (p # qs))"
    using unknown_arg_pattern by blast
  have "\<forall>ys. arg_patterns ((a # xs) @ ys) =
           (case arg_patterns ys of Inl e \<Rightarrow> Inl e | Inr qs \<Rightarrow> Inr ((p # ps) @ qs))"
    by (simp only: append_Cons p(2) ps(3)) (simp split: sum.splits)
  with ps(1,2) p(1) show ?case
    by (intro exI [of _ "p # ps"]) simp
qed

lemma consume_skip:
  "length ps = length xs \<Longrightarrow> list_all skip_pat ps \<Longrightarrow>
   consume settings extras (zip xs ps @ rest) = consume settings (extras @ xs) rest"
proof (induction ps xs arbitrary: extras rule: list_induct2)
  case Nil
  show ?case by simp
next
  case (Cons p ps x xs)
  from Cons.prems have "skip_pat p" "list_all skip_pat ps" by simp_all
  then show ?case
    using Cons.IH [of "extras @ [x]"]
    by (cases p rule: skip_pat.cases) simp_all
qed

lemma parse_optional_short: "parse_optional ''-s'' = Inr (Some (Some Settings_action, ''-s'', None, None))"
  by (simp add: parse_optional_def option_string_actions_def)

lemma parse_optional_long:
  "parse_optional ''--settings'' = Inr (Some (Some Settings_action, ''--settings'', None, None))"
  by (simp add: parse_optional_def option_string_actions_def)

lemma parse_optional_long_eq:
  "parse_optional (''--settings='' @ blob)
     = Inr (Some (Some Settings_action, ''--settings'', Some ''='', Some blob))"
  by (simp add: parse_optional_def option_string_actions_def partition_eq_def)

lemma flag_value_patterns:
  assumes f: "parse_optional flag = Inr (Some (Some Settings_action, flag, None, None))"
    and d: "flag \<noteq> ''--''"
    and b: "positional_arg blob"
  shows "(\<forall>ys. arg_patterns ([flag, blob] @ ys) =
             (case arg_patterns ys of Inl e \<Rightarrow> Inl e
              | Inr qs \<Rightarrow> Inr ([Pat_O (Some Settings_action, flag, None, None), Pat_A] @ qs))) \<and>
         (\<forall>settings extras rest.
             consume settings extras
               (zip [flag, blob] [Pat_O (Some Settings_action, flag, None, None), Pat_A] @ rest)
             = consume (Some blob) extras rest)"
  using f d b by (simp add: positional_arg_def split: sum.splits)

lemma settings_given_patterns:
  assumes "settings_given toks blob"
  shows "\<exists>ps. length ps = length toks \<and>
          (\<forall>ys. arg_patterns (toks @ ys) =
             (case arg_patterns ys of Inl e \<Rightarrow> Inl e | Inr qs \<Rightarrow> Inr (ps @ qs))) \<and>
          (\<forall>settings extras rest.
             consume settings extras (zip toks ps @ rest) = consume (Some blob) extras rest)"
proof -
  from assms consider
      (short) "toks = [''-s'', blob]" "positional_arg blob"
    | (long) "toks = [''--settings'', blob]" "positional_arg blob"
    | (eq) "toks = [''--settings='' @ blob]"
    by (auto simp: settings_given_def)
  then show ?thesis
  proof cases
    case short
    from flag_value_patterns [OF parse_optional_short _ short(2)] show ?thesis
      unfolding short(1)
      by (intro exI [of _ "[Pat_O (Some Settings_action, ''-s'', None, None), Pat_A]"]) simp
  next
    case long
    from flag_value_patterns [OF parse_optional_long _ long(2)] show ?thesis
      unfolding long(1)
      by (intro exI [of _ "[Pat_O (Some Settings_action, ''--settings'', None, None), Pat_A]"]) simp
  next
    case eq
    have "\<forall>ys. arg_patterns ([''--settings='' @ blob] @ ys) =
             (case arg_patterns ys of Inl e \<Rightarrow> Inl e
              | Inr qs \<Rightarrow>
                  Inr ([Pat_O (Some Settings_action, ''--settings'', Some ''='', Some blob)] @ qs))"
      using parse_optional_long_eq [of blob] by (simp split: sum.splits)
    then show ?thesis
      unfolding eq
      by (intro exI [of _ "[Pat_O (Some Settings_action, ''--settings'', Some ''='', Some blob)]"])
         simp
  qed
qed

text \<open>C9: the parser has one required flag, \<^verbatim>\<open>-s\<close> or \<^verbatim>\<open>--settings\<close>, that carries the
  settings blob. Whatever unknown arguments stand before and after the flag and its blob,
  parsing succeeds with that blob and returns the unknown arguments, in their order, as
  the list the script never reads; the script then does exactly what it does for the blob.
  The same unknown arguments without the flag are an error: the flag is required.\<close>

theorem unknown_arguments_ignored:
  assumes pre: "list_all unknown_arg pre"
    and post: "list_all unknown_arg post"
    and given: "settings_given toks blob"
  shows "parse_known_args (pre @ toks @ post) = Parsed blob (pre @ post)
         \<and> script json_loads run_main (pre @ toks @ post)
             = settings_block json_loads run_main blob
         \<and> parse_known_args (pre @ post) = Usage_exit Required_arguments"
proof -
  from unknown_args_patterns [OF pre] obtain ps where
    ps: "length ps = length pre" "list_all skip_pat ps"
      "\<And>ys. arg_patterns (pre @ ys) =
           (case arg_patterns ys of Inl e \<Rightarrow> Inl e | Inr qs \<Rightarrow> Inr (ps @ qs))"
    by blast
  from unknown_args_patterns [OF post] obtain qs where
    qs: "length qs = length post" "list_all skip_pat qs"
      "\<And>ys. arg_patterns (post @ ys) =
           (case arg_patterns ys of Inl e \<Rightarrow> Inl e | Inr rs \<Rightarrow> Inr (qs @ rs))"
    by blast
  from settings_given_patterns [OF given] obtain ts where
    ts: "length ts = length toks"
      "\<And>ys. arg_patterns (toks @ ys) =
           (case arg_patterns ys of Inl e \<Rightarrow> Inl e | Inr rs \<Rightarrow> Inr (ts @ rs))"
      "\<And>settings extras rest.
           consume settings extras (zip toks ts @ rest) = consume (Some blob) extras rest"
    by blast
  have post_pats: "arg_patterns post = Inr qs"
    using qs(3) [of "[]"] by simp
  have pats: "arg_patterns (pre @ toks @ post) = Inr (ps @ ts @ qs)"
    by (simp add: ps(3) ts(2) post_pats)
  have z: "zip (pre @ toks @ post) (ps @ ts @ qs) = zip pre ps @ zip toks ts @ zip post qs"
    by (simp add: ps(1) ts(1))
  have "consume None [] (zip pre ps @ zip toks ts @ zip post qs)
        = consume None pre (zip toks ts @ zip post qs)"
    using consume_skip [OF ps(1) ps(2), of None "[]"] by simp
  also have "\<dots> = consume (Some blob) pre (zip post qs)"
    by (rule ts(3))
  also have "\<dots> = consume (Some blob) (pre @ post) []"
    using consume_skip [OF qs(1) qs(2), of "Some blob" pre "[]"] by simp
  finally have a: "parse_known_args (pre @ toks @ post) = Parsed blob (pre @ post)"
    by (simp add: parse_known_args_def pats z)
  have pats': "arg_patterns (pre @ post) = Inr (ps @ qs)"
    by (simp add: ps(3) post_pats)
  have "consume None [] (zip pre ps @ zip post qs) = consume None pre (zip post qs)"
    using consume_skip [OF ps(1) ps(2), of None "[]"] by simp
  also have "\<dots> = consume None (pre @ post) []"
    using consume_skip [OF qs(1) qs(2), of None pre "[]"] by simp
  finally have c: "parse_known_args (pre @ post) = Usage_exit Required_arguments"
    by (simp add: parse_known_args_def pats' ps(1))
  from a c show ?thesis
    by (simp add: script_def)
qed

theorem unknown_arguments_ignored_witness:
  "list_all unknown_arg [''--verbose'', ''extra''] \<and> list_all unknown_arg [''-x'', ''more'']
   \<and> settings_given [''-s'', ''{}''] ''{}''
   \<and> parse_known_args [''--verbose'', ''extra'', ''-s'', ''{}'', ''-x'', ''more'']
       = Parsed ''{}'' [''--verbose'', ''extra'', ''-x'', ''more'']
   \<and> parse_known_args [''--verbose'', ''extra'', ''-x'', ''more''] = Usage_exit Required_arguments"
proof -
  have pre: "list_all unknown_arg [''--verbose'', ''extra'']"
    by (simp add: unknown_arg_def parse_optional_def option_string_actions_def partition_eq_def
        negative_number_def is_digit_def)
  have post: "list_all unknown_arg [''-x'', ''more'']"
    by (simp add: unknown_arg_def parse_optional_def option_string_actions_def partition_eq_def
        negative_number_def is_digit_def)
  have given: "settings_given [''-s'', ''{}''] ''{}''"
    by (simp add: settings_given_def positional_arg_def parse_optional_def)
  from unknown_arguments_ignored [OF pre post given, of sample_loads quiet_main] pre post given
  show ?thesis by simp
qed

end
